theory Spec2Isabelle
  imports Complex_Main
begin

section \<open>Data model\<close>

text \<open>
  The program works on pandas tables of players. A table is modelled by the list of its
  column names together with the list of its rows; a row is a record with one field per
  column the program reads or writes. A field only means something while its column name
  is in \<open>columns\<close>: reading a column whose name is absent raises \<open>KeyError\<close>, as
  pandas does.

  Numbers are exact: Python floats are modelled by \<open>real\<close>, so rounding is not part of
  the model. A cell of a column that the source passes through
  \<^verbatim>\<open>pd.to_numeric(..., errors='coerce')\<close>, or that the data source may leave null, is a
  \<open>real option\<close>: the number read from the cell, \<open>None\<close> for NaN.
\<close>

datatype error =
    KeyError "string list"      \<comment> \<open>pandas: the column names that were not found\<close>
  | ValueError string           \<comment> \<open>scikit-learn input validation\<close>
  | AttributeError              \<comment> \<open>a method called on \<^verbatim>\<open>None\<close>\<close>
  | TypeError                   \<comment> \<open>\<^verbatim>\<open>None\<close> subscripted\<close>
  | NaNScore                    \<comment> \<open>no exception of the source: it returns NaN scores, which \<open>real\<close> cannot hold\<close>
  | ConfigurationError string   \<comment> \<open>named by the specification only; no function of the source raises it\<close>

record player =
  ident :: int                                  \<comment> \<open>column \<^verbatim>\<open>id\<close>\<close>
  web_name :: string
  team_short :: string
  position :: string
  price :: real
  status :: string
  minutes :: int
  total_points :: int
  clean_sheets :: int
  goals_conceded :: int
  selected_by_percent :: "real option"
  form :: "real option"
  points_per_game :: "real option"
  ict_index :: "real option"
  expected_goals :: "real option"
  expected_assists :: "real option"
  chance_of_playing_next_round :: "real option"
  points_per_million :: real
  form_per_million :: real
  expected_involvement :: real
  points_per_game_normalized :: real
  form_normalized :: real
  points_per_million_normalized :: real
  ict_index_normalized :: real
  expected_involvement_normalized :: real
  value_score :: real

record dataframe =
  columns :: "string list"
  rows :: "player list"

text \<open>The analyzer's state is \<^verbatim>\<open>self.players_df\<close>: \<^verbatim>\<open>None\<close> until data is loaded.\<close>

type_synonym analyzer = "dataframe option"

definition missing :: "string list \<Rightarrow> dataframe \<Rightarrow> string list" where
  "missing cs df = filter (\<lambda>c. c \<notin> set (columns df)) cs"

definition add_col :: "string list \<Rightarrow> string \<Rightarrow> string list" where
  "add_col cs c = (if c \<in> set cs then cs else cs @ [c])"

section \<open>ScoreModel: \<^verbatim>\<open>calculate_value_score\<close>\<close>

text \<open>\<^verbatim>\<open>df.fillna(0)\<close> on one cell.\<close>

definition fillna :: "real option \<Rightarrow> real option" where
  "fillna c = (case c of None \<Rightarrow> Some 0 | Some v \<Rightarrow> Some v)"

text \<open>Lines 32 to 40: the coerced columns and every other nullable column, NaN replaced by 0.\<close>

definition fill_row :: "player \<Rightarrow> player" where
  "fill_row p = p\<lparr>
     selected_by_percent := fillna (selected_by_percent p),
     form := fillna (form p),
     points_per_game := fillna (points_per_game p),
     ict_index := fillna (ict_index p),
     expected_goals := fillna (expected_goals p),
     expected_assists := fillna (expected_assists p),
     chance_of_playing_next_round := fillna (chance_of_playing_next_round p)\<rparr>"

text \<open>Lines 43 to 47: the derived columns.\<close>

definition derive_row :: "player \<Rightarrow> player" where
  "derive_row p = p\<lparr>
     points_per_million := real_of_int (total_points p) / price p,
     form_per_million := the (form p) / price p,
     expected_involvement := the (expected_goals p) + the (expected_assists p)\<rparr>"

text \<open>
  scikit-learn's \<^verbatim>\<open>MinMaxScaler\<close> with the feature range (0, 1): \<open>fit\<close> returns
  \<^verbatim>\<open>(scale_, min_)\<close>, a data range of zero being replaced by 1, and \<open>transform\<close> is
  \<^verbatim>\<open>X * scale_ + min_\<close>.
\<close>

definition fit :: "real list \<Rightarrow> real \<times> real" where
  "fit xs =
     (let data_min = Min (set xs);
          data_max = Max (set xs);
          data_range = data_max - data_min;
          scale = 1 / (if data_range = 0 then 1 else data_range)
      in (scale, 0 - data_min * scale))"

definition transform :: "real \<times> real \<Rightarrow> real \<Rightarrow> real" where
  "transform s x = x * fst s + snd s"

text \<open>
  Lines 50 to 54, the five \<^verbatim>\<open>fit_transform\<close> calls. The guard
  \<^verbatim>\<open>if metric in df.columns\<close> is true for each of the five names, which were read or
  assigned on lines 33 to 47. Each call reads its own metric column only, so the five
  column assignments are one pass over the rows.
\<close>

definition normalize_metrics :: "player list \<Rightarrow> player list" where
  "normalize_metrics rs =
     (let s1 = fit (map (\<lambda>p. the (points_per_game p)) rs);
          s2 = fit (map (\<lambda>p. the (form p)) rs);
          s3 = fit (map points_per_million rs);
          s4 = fit (map (\<lambda>p. the (ict_index p)) rs);
          s5 = fit (map expected_involvement rs)
      in map (\<lambda>p. p\<lparr>
           points_per_game_normalized := transform s1 (the (points_per_game p)),
           form_normalized := transform s2 (the (form p)),
           points_per_million_normalized := transform s3 (points_per_million p),
           ict_index_normalized := transform s4 (the (ict_index p)),
           expected_involvement_normalized := transform s5 (expected_involvement p)\<rparr>) rs)"

text \<open>Lines 57 to 65: Python's \<^verbatim>\<open>sum\<close> starts from 0 and adds the products in the dict's order.\<close>

definition composite :: "player \<Rightarrow> real" where
  "composite p =
     0 + points_per_game_normalized p * 0.25
       + form_normalized p * 0.25
       + points_per_million_normalized p * 0.20
       + ict_index_normalized p * 0.15
       + expected_involvement_normalized p * 0.15"

definition set_value_score :: "player \<Rightarrow> player" where
  "set_value_score p = p\<lparr>value_score := composite p\<rparr>"

text \<open>Line 68 and line 69.\<close>

definition chance_penalty :: "player \<Rightarrow> player" where
  "chance_penalty p =
     (if the (chance_of_playing_next_round p) < 100 then p\<lparr>value_score := value_score p * 0.5\<rparr> else p)"

definition status_penalty :: "player \<Rightarrow> player" where
  "status_penalty p =
     (if status p \<noteq> ''a'' then p\<lparr>value_score := value_score p * 0.3\<rparr> else p)"

definition required_columns :: "string list" where
  "required_columns =
     [''minutes'', ''selected_by_percent'', ''form'', ''points_per_game'', ''ict_index'',
      ''expected_goals'', ''expected_assists'', ''total_points'', ''price'']"

definition penalty_columns :: "string list" where
  "penalty_columns = [''chance_of_playing_next_round'', ''status'']"

definition new_columns :: "string list" where
  "new_columns =
     [''points_per_million'', ''form_per_million'', ''expected_involvement'',
      ''points_per_game_normalized'', ''form_normalized'', ''points_per_million_normalized'',
      ''ict_index_normalized'', ''expected_involvement_normalized'', ''value_score'']"

text \<open>
  \<^verbatim>\<open>calculate_value_score\<close>. The result is both the returned table and the new
  \<^verbatim>\<open>self.players_df\<close>; on an error the state is unchanged. Columns are read in the order
  of \<open>required_columns\<close>, and the first one missing raises \<open>KeyError\<close>. The scaler
  (scikit-learn's input validation) rejects a column with no rows and a column holding
  infinity, which is a price of 0 under nonzero points. The two penalty columns are read
  last. A price of 0 under zero points gives NaN, which the scaler lets through: the
  source then returns a table with NaN scores, where the model has \<open>NaNScore\<close>.
\<close>

definition calculate_value_score :: "analyzer \<Rightarrow> error + dataframe" where
  "calculate_value_score an =
     (case an of
        None \<Rightarrow> Inl AttributeError
      | Some df \<Rightarrow>
          (case missing required_columns df of
             c # _ \<Rightarrow> Inl (KeyError [c])
           | [] \<Rightarrow>
               (let rs = map fill_row (filter (\<lambda>p. minutes p > 0) (rows df)) in
                if rs = [] then Inl (ValueError ''Found array with 0 sample(s)'')
                else if \<exists>p \<in> set rs. price p = 0 \<and> total_points p \<noteq> 0
                  then Inl (ValueError ''Input X contains infinity'')
                else
                  (case missing penalty_columns df of
                     c # _ \<Rightarrow> Inl (KeyError [c])
                   | [] \<Rightarrow>
                       if \<exists>p \<in> set rs. price p = 0 then Inl NaNScore
                       else
                         Inr \<lparr>columns = foldl add_col (columns df) new_columns,
                              rows = map (status_penalty \<circ> chance_penalty \<circ> set_value_score)
                                       (normalize_metrics (map derive_row rs))\<rparr>))))"

section \<open>SquadBuilder: \<^verbatim>\<open>build_optimal_squad\<close>\<close>

text \<open>
  Lines 120 and 121 (and 186 and 187): the table in force is \<^verbatim>\<open>self.players_df\<close> when it
  is loaded and has a \<^verbatim>\<open>value_score\<close> column, and the result of
  \<^verbatim>\<open>calculate_value_score\<close> otherwise, which then also is the new state.
\<close>

definition scored_table :: "analyzer \<Rightarrow> error + dataframe" where
  "scored_table an =
     (case an of
        None \<Rightarrow> calculate_value_score an
      | Some df \<Rightarrow>
          if ''value_score'' \<notin> set (columns df) then calculate_value_score an else Inr df)"

text \<open>
  \<^verbatim>\<open>sort_values('value_score', ascending=False)\<close> and \<^verbatim>\<open>nlargest(n, 'value_score')\<close>
  order rows by descending score, and by nothing else. Rows of equal score are kept in table
  order here (an insertion sort on the negated score). \<^verbatim>\<open>nlargest\<close> does so by its
  \<^verbatim>\<open>keep='first'\<close>. \<^verbatim>\<open>sort_values\<close> with its default sort kind promises no order among
  equal scores; whatever order it leaves them in is a matter of the score column alone, since
  that column is all the sort reads.
\<close>

definition sort_values_desc :: "player list \<Rightarrow> player list" where
  "sort_values_desc rs = sort_key (\<lambda>p. - value_score p) rs"

definition formation :: "(string \<times> nat) list" where
  "formation = [(''GK'', 2), (''DEF'', 5), (''MID'', 5), (''FWD'', 3)]"

text \<open>Lines 135 to 141: the candidates of one position, in iteration order.\<close>

definition candidates :: "dataframe \<Rightarrow> string \<Rightarrow> player list" where
  "candidates df pos =
     sort_values_desc (filter (\<lambda>p. position p = pos \<and> status p = ''a'') (rows df))"

record selection =
  squad :: "player list"
  remaining_budget :: real
  team_counts :: "string \<rightharpoonup> nat"

text \<open>
  Lines 143 to 159: the loop over one position's candidates; \<open>selected\<close> is the loop's
  counter. The first equation is the exhausted iterator, the first branch the \<^verbatim>\<open>break\<close>,
  the second the \<^verbatim>\<open>continue\<close>.
\<close>

fun select_players :: "nat \<Rightarrow> player list \<Rightarrow> nat \<Rightarrow> selection \<Rightarrow> selection" where
  "select_players count [] selected st = st"
| "select_players count (player # ps) selected st =
     (if selected \<ge> count then st
      else
        let player_team = team_short player;
            current_team_count = (case team_counts st player_team of None \<Rightarrow> 0 | Some n \<Rightarrow> n)
        in if current_team_count \<ge> 3 then select_players count ps selected st
           else if price player \<le> remaining_budget st then
             select_players count ps (selected + 1)
               (st\<lparr>squad := squad st @ [player],
                   remaining_budget := remaining_budget st - price player,
                   team_counts := (team_counts st)(player_team \<mapsto> current_team_count + 1)\<rparr>)
           else select_players count ps selected st)"

text \<open>Line 134: the loop over the formation, in the dict's order.\<close>

fun fill_positions :: "(string \<times> nat) list \<Rightarrow> dataframe \<Rightarrow> selection \<Rightarrow> selection" where
  "fill_positions [] df st = st"
| "fill_positions ((pos, count) # rest) df st =
     fill_positions rest df (select_players count (candidates df pos) 0 st)"

definition display_columns :: "string list" where
  "display_columns =
     [''web_name'', ''team_short'', ''position'', ''price'', ''total_points'', ''form'', ''value_score'']"

text \<open>
  \<^verbatim>\<open>build_optimal_squad\<close> returns \<^verbatim>\<open>squad_df\<close>, the table of the selected rows, and
  nothing else. Its raises: what \<^verbatim>\<open>calculate_value_score\<close> raises; \<open>KeyError\<close> for
  \<^verbatim>\<open>position\<close> or \<^verbatim>\<open>status\<close> (line 136); for \<^verbatim>\<open>team_short\<close> or \<^verbatim>\<open>price\<close>
  (lines 148 and 155) as soon as one candidate is iterated; for \<^verbatim>\<open>price\<close> on line 162 when
  nothing was selected, since \<^verbatim>\<open>pd.DataFrame([])\<close> has no columns; and for the display
  columns that are missing on line 177. The prints are not modelled.
\<close>

definition build_optimal_squad :: "analyzer \<Rightarrow> real \<Rightarrow> error + dataframe" where
  "build_optimal_squad an budget =
     (case scored_table an of
        Inl e \<Rightarrow> Inl e
      | Inr df \<Rightarrow>
          (case missing [''position'', ''status''] df of
             c # _ \<Rightarrow> Inl (KeyError [c])
           | [] \<Rightarrow>
               (case (if \<exists>pc \<in> set formation. candidates df (fst pc) \<noteq> []
                      then missing [''team_short'', ''price''] df else []) of
                  c # _ \<Rightarrow> Inl (KeyError [c])
                | [] \<Rightarrow>
                    (let st = fill_positions formation df
                                \<lparr>squad = [], remaining_budget = budget, team_counts = Map.empty\<rparr>
                     in if squad st = [] then Inl (KeyError [''price''])
                        else
                          (case missing display_columns df of
                             [] \<Rightarrow> Inr \<lparr>columns = columns df, rows = squad st\<rparr>
                           | c # cs \<Rightarrow> Inl (KeyError (c # cs)))))))"

section \<open>TransferRecommender: \<^verbatim>\<open>recommend_transfers\<close>\<close>

text \<open>The dict appended on lines 239 to 254; \<open>out_name\<close> and \<open>in_name\<close> are its keys \<^verbatim>\<open>out\<close> and \<^verbatim>\<open>in\<close>.\<close>

record recommendation =
  rec_position :: string
  out_name :: string
  out_team :: string
  out_price :: real
  out_score :: real
  out_form :: "real option"
  in_name :: string
  in_team :: string
  in_price :: real
  in_score :: real
  in_form :: "real option"
  price_change :: real
  score_improvement :: real
  team_count_after :: nat

text \<open>\<^verbatim>\<open>value_counts().to_dict()\<close>: the clubs that occur, each with its number of rows.\<close>

definition value_counts :: "string list \<Rightarrow> (string \<rightharpoonup> nat)" where
  "value_counts xs = (\<lambda>k. if k \<in> set xs then Some (count_list xs k) else None)"

text \<open>Lines 215 to 220.\<close>

definition replacements :: "player list \<Rightarrow> player \<Rightarrow> player list" where
  "replacements available_pos current_player =
     take 100 (sort_values_desc (filter (\<lambda>r.
        price r \<ge> price current_player - 1.5 \<and>
        price r \<le> price current_player + 1.5 \<and>
        value_score r > value_score current_player \<and>
        status r = ''a'') available_pos))"

text \<open>Lines 227 to 235: \<open>None\<close> is the \<^verbatim>\<open>continue\<close>.\<close>

definition count_after :: "(string \<rightharpoonup> nat) \<Rightarrow> string \<Rightarrow> string \<Rightarrow> nat option" where
  "count_after tc replacement_team current_player_team =
     (case tc replacement_team of
        Some n \<Rightarrow>
          if replacement_team = current_player_team then Some n
          else if n \<ge> 3 then None
          else Some (n + 1)
      | None \<Rightarrow> Some 1)"

definition make_rec :: "string \<Rightarrow> player \<Rightarrow> player \<Rightarrow> nat \<Rightarrow> recommendation" where
  "make_rec pos current_player replacement tca =
     \<lparr>rec_position = pos,
      out_name = web_name current_player,
      out_team = team_short current_player,
      out_price = price current_player,
      out_score = value_score current_player,
      out_form = form current_player,
      in_name = web_name replacement,
      in_team = team_short replacement,
      in_price = price replacement,
      in_score = value_score replacement,
      in_form = form replacement,
      price_change = price replacement - price current_player,
      score_improvement = value_score replacement - value_score current_player,
      team_count_after = tca\<rparr>"

text \<open>Lines 222 to 254: what one outgoing player appends to \<^verbatim>\<open>position_recommendations\<close>.\<close>

definition recs_for :: "(string \<rightharpoonup> nat) \<Rightarrow> string \<Rightarrow> player list \<Rightarrow> player \<Rightarrow> recommendation list" where
  "recs_for tc pos available_pos current_player =
     List.map_filter (\<lambda>replacement.
        case count_after tc (team_short replacement) (team_short current_player) of
          None \<Rightarrow> None
        | Some tca \<Rightarrow> if tca \<le> 3 then Some (make_rec pos current_player replacement tca) else None)
       (replacements available_pos current_player)"

text \<open>
  \<^verbatim>\<open>sorted(recs, key=lambda x: x['score_improvement'], reverse=True)\<close>: Python's sort is stable,
  also under \<^verbatim>\<open>reverse=True\<close>.
\<close>

definition sorted_by_improvement :: "recommendation list \<Rightarrow> recommendation list" where
  "sorted_by_improvement rs = sort_key (\<lambda>r. - score_improvement r) rs"

text \<open>Lines 201 to 261: the three recommendations kept for one position.\<close>

definition position_recommendations ::
  "(string \<rightharpoonup> nat) \<Rightarrow> string \<Rightarrow> player list \<Rightarrow> player list \<Rightarrow> recommendation list" where
  "position_recommendations tc pos current_team available =
     (let current_pos = filter (\<lambda>p. position p = pos) current_team;
          available_pos = filter (\<lambda>p. position p = pos) available
      in take 3 (sorted_by_improvement (concat (map (recs_for tc pos available_pos) current_pos))))"

definition positions :: "string list" where
  "positions = [''GK'', ''DEF'', ''MID'', ''FWD'']"

text \<open>A Python slice \<^verbatim>\<open>xs[:k]\<close>; a negative \<open>k\<close> counts from the end.\<close>

definition slice_to :: "int \<Rightarrow> 'a list \<Rightarrow> 'a list" where
  "slice_to k xs = (if k \<ge> 0 then take (nat k) xs else take (nat (int (length xs) + k)) xs)"

text \<open>
  \<^verbatim>\<open>recommend_transfers\<close> returns the table of the top recommendations, one row per
  recommendation, or the empty table. Its raises: what \<^verbatim>\<open>calculate_value_score\<close>
  raises; \<open>KeyError\<close> for \<^verbatim>\<open>id\<close>, \<^verbatim>\<open>team_short\<close> or \<^verbatim>\<open>position\<close> (lines 190 to
  201); for \<^verbatim>\<open>price\<close> or \<^verbatim>\<open>status\<close> (lines 212 and 219) once a squad row of one of the
  four positions is iterated; for \<^verbatim>\<open>web_name\<close> or \<^verbatim>\<open>form\<close> (lines 241 and 245) once a
  recommendation is appended; and for \<^verbatim>\<open>team_count_after\<close> on line 292, when the slice on
  line 289 is empty and the table made of it has no columns.
\<close>

definition recommend_transfers :: "analyzer \<Rightarrow> int list \<Rightarrow> int \<Rightarrow> error + recommendation list" where
  "recommend_transfers an current_team_ids transfers_available =
     (case scored_table an of
        Inl e \<Rightarrow> Inl e
      | Inr df \<Rightarrow>
          (case missing [''id'', ''team_short'', ''position''] df of
             c # _ \<Rightarrow> Inl (KeyError [c])
           | [] \<Rightarrow>
               (let current_team = filter (\<lambda>p. ident p \<in> set current_team_ids) (rows df);
                    tc = value_counts (map team_short current_team);
                    available = filter (\<lambda>p. ident p \<notin> set current_team_ids) (rows df)
                in case (if \<exists>p \<in> set current_team. position p \<in> set positions
                         then missing [''price'', ''status''] df else []) of
                     c # _ \<Rightarrow> Inl (KeyError [c])
                   | [] \<Rightarrow>
                       (let all_recommendations =
                              concat (map (\<lambda>pos. position_recommendations tc pos current_team available)
                                        positions)
                        in if all_recommendations = [] then Inr []
                           else
                             (case missing [''web_name'', ''form''] df of
                                c # _ \<Rightarrow> Inl (KeyError [c])
                              | [] \<Rightarrow>
                                  (let top_overall =
                                         slice_to (transfers_available * 3)
                                           (sorted_by_improvement all_recommendations)
                                   in if top_overall = [] then Inl (KeyError [''team_count_after''])
                                      else Inr top_overall))))))"

section \<open>FixtureDifficultyEstimator\<close>

























section \<open>Auxiliary notions for the proofs\<close>

text \<open>
  What lines 52 to 69 do to one row of the table \<open>ds\<close>: the five normalised columns, then
  the value score with its two penalties.
\<close>

definition norm_row :: "player list \<Rightarrow> player \<Rightarrow> player" where
  "norm_row ds p = p\<lparr>
     points_per_game_normalized :=
       transform (fit (map (\<lambda>p. the (points_per_game p)) ds)) (the (points_per_game p)),
     form_normalized := transform (fit (map (\<lambda>p. the (form p)) ds)) (the (form p)),
     points_per_million_normalized :=
       transform (fit (map points_per_million ds)) (points_per_million p),
     ict_index_normalized := transform (fit (map (\<lambda>p. the (ict_index p)) ds)) (the (ict_index p)),
     expected_involvement_normalized :=
       transform (fit (map expected_involvement ds)) (expected_involvement p)\<rparr>"

definition final_score :: "player \<Rightarrow> real" where
  "final_score p =
     (let v = composite p;
          v = (if the (chance_of_playing_next_round p) < 100 then v * 0.5 else v)
      in if status p \<noteq> ''a'' then v * 0.3 else v)"

definition rescore :: "player list \<Rightarrow> player \<Rightarrow> player" where
  "rescore ds p = (status_penalty \<circ> chance_penalty \<circ> set_value_score) (norm_row ds p)"

text \<open>The number of a club's players in a squad, and the invariant of the selection loops.\<close>

definition club_count :: "player list \<Rightarrow> string \<Rightarrow> nat" where
  "club_count sq c = length (filter (\<lambda>p. team_short p = c) sq)"


definition position_count :: "player list \<Rightarrow> string \<Rightarrow> nat" where
  "position_count sq pos = length (filter (\<lambda>p. position p = pos) sq)"







text \<open>
  The squad after a transfer, read off the loaded table: the rows of the squad's
  identifiers without the outgoing player, and the incoming player's row.
\<close>

definition squad_after_swap :: "player list \<Rightarrow> int list \<Rightarrow> int \<Rightarrow> int \<Rightarrow> player list" where
  "squad_after_swap table ids out_id in_id =
     filter (\<lambda>p. ident p \<in> set ids \<and> ident p \<noteq> out_id) table @
     filter (\<lambda>p. ident p = in_id) table"

section \<open>Concrete tables\<close>

text \<open>A row with neutral values, and the columns of a table as the data source delivers it.\<close>

definition p0 :: player where
  "p0 = \<lparr>ident = 0, web_name = [], team_short = [], position = [], price = 5, status = ''a'',
     minutes = 90, total_points = 0, clean_sheets = 0, goals_conceded = 0,
     selected_by_percent = None, form = None, points_per_game = None, ict_index = None,
     expected_goals = None, expected_assists = None, chance_of_playing_next_round = None,
     points_per_million = 0, form_per_million = 0, expected_involvement = 0,
     points_per_game_normalized = 0, form_normalized = 0, points_per_million_normalized = 0,
     ict_index_normalized = 0, expected_involvement_normalized = 0, value_score = 0\<rparr>"

definition raw_columns :: "string list" where
  "raw_columns =
     [''id'', ''web_name'', ''team_short'', ''total_points'', ''points_per_game'',
      ''selected_by_percent'', ''form'', ''minutes'', ''clean_sheets'', ''goals_conceded'',
      ''ict_index'', ''expected_goals'', ''expected_assists'', ''chance_of_playing_next_round'',
      ''status'', ''price'', ''position'']"

text \<open>
  Two players who have played, the second one doubtful and injured, and one who has not
  played.
\<close>

definition ex1_rows :: "player list" where
  "ex1_rows = [
     p0\<lparr>ident := 1, form := Some 2, points_per_game := Some 4, total_points := 40,
        chance_of_playing_next_round := Some 100\<rparr>,
     p0\<lparr>ident := 2, form := Some 6, points_per_game := Some 2, total_points := 20,
        chance_of_playing_next_round := Some 75, status := ''i''\<rparr>,
     p0\<lparr>ident := 3, minutes := 0\<rparr>]"

definition ex1 :: analyzer where
  "ex1 = Some \<lparr>columns = raw_columns, rows = ex1_rows\<rparr>"

definition ex1_scored :: dataframe where
  "ex1_scored = projr (calculate_value_score ex1)"

text \<open>The same table without its \<^verbatim>\<open>form\<close> column.\<close>

definition ex_no_form :: analyzer where
  "ex_no_form = Some \<lparr>columns = filter (\<lambda>c. c \<noteq> ''form'') raw_columns, rows = ex1_rows\<rparr>"

text \<open>
  Four goalkeepers and nobody else. The first three have the same points per game, form and
  points per million, hence the same value score, at three different prices.
\<close>

definition gk :: "int \<Rightarrow> string \<Rightarrow> string \<Rightarrow> real \<Rightarrow> int \<Rightarrow> real \<Rightarrow> real \<Rightarrow> player" where
  "gk i name club pr pts frm ppg =
     p0\<lparr>ident := i, web_name := name, team_short := club, position := ''GK'', price := pr,
        total_points := pts, form := Some frm, points_per_game := Some ppg,
        chance_of_playing_next_round := Some 100\<rparr>"

definition ex_gk_rows :: "player list" where
  "ex_gk_rows =
     [gk 1 ''A'' ''ARS'' 5.0 50 6 5,
      gk 2 ''B'' ''CHE'' 4.0 40 6 5,
      gk 3 ''C'' ''LIV'' 4.5 45 6 5,
      gk 4 ''D'' ''EVE'' 4.0 20 2 3]"

definition ex_gk :: analyzer where
  "ex_gk = Some \<lparr>columns = raw_columns, rows = ex_gk_rows\<rparr>"

definition ex_gk_scored :: dataframe where
  "ex_gk_scored = projr (calculate_value_score ex_gk)"


text \<open>
  Two clubs with one defender each: 60 clean sheets give the first one the overall
  strength 120, 40 clean sheets give the second one 80. The predictor starts with an empty
  strength table.
\<close>

definition club :: "int \<Rightarrow> string \<Rightarrow> int \<Rightarrow> player" where
  "club i name cs = p0\<lparr>ident := i, team_short := name, position := ''DEF'', clean_sheets := cs\<rparr>"



text \<open>
  A loaded table of 19 players who differ in position, club, minutes and form. The squad
  is the players 1 to 15: two goalkeepers, five defenders, five midfielders and three
  forwards, at most three of a club. Goalkeeper 2, of club ARS, has not played. The
  players 16 to 19 are outside the squad.
\<close>

definition pl :: "int \<Rightarrow> string \<Rightarrow> string \<Rightarrow> int \<Rightarrow> real \<Rightarrow> player" where
  "pl i pos clb mins frm =
     p0\<lparr>ident := i, web_name := pos @ ''-'' @ clb, team_short := clb, position := pos,
        minutes := mins, form := Some frm, chance_of_playing_next_round := Some 100\<rparr>"

definition ex_team_rows :: "player list" where
  "ex_team_rows =
     [pl 1 ''GK'' ''MCI'' 900 10,
      pl 2 ''GK'' ''ARS'' 0 0,
      pl 3 ''DEF'' ''ARS'' 900 0,
      pl 4 ''DEF'' ''MCI'' 900 5,
      pl 5 ''DEF'' ''NEW'' 900 10,
      pl 6 ''DEF'' ''NEW'' 900 10,
      pl 7 ''DEF'' ''BHA'' 900 10,
      pl 8 ''MID'' ''ARS'' 900 10,
      pl 9 ''MID'' ''MCI'' 900 10,
      pl 10 ''MID'' ''BHA'' 900 10,
      pl 11 ''MID'' ''BHA'' 900 10,
      pl 12 ''MID'' ''NEW'' 900 10,
      pl 13 ''FWD'' ''CHE'' 900 0,
      pl 14 ''FWD'' ''CHE'' 900 10,
      pl 15 ''FWD'' ''AVL'' 900 10,
      pl 16 ''FWD'' ''ARS'' 900 8,
      pl 17 ''DEF'' ''LIV'' 900 8,
      pl 18 ''DEF'' ''EVE'' 900 7,
      pl 19 ''DEF'' ''TOT'' 900 6]"

definition ex_team :: analyzer where
  "ex_team = Some \<lparr>columns = raw_columns, rows = ex_team_rows\<rparr>"

definition ex_ids :: "int list" where
  "ex_ids = [1, 2, 3, 4, 5, 6, 7, 8, 9, 10, 11, 12, 13, 14, 15]"





section \<open>Properties of the ScoreModel\<close>

lemmas score_defs = calculate_value_score_def missing_def required_columns_def penalty_columns_def
  new_columns_def add_col_def fill_row_def fillna_def derive_row_def normalize_metrics_def fit_def
  transform_def composite_def set_value_score_def chance_penalty_def status_penalty_def Let_def


lemma composite_penalties [simp]:
  "composite (status_penalty p) = composite p"
  "composite (chance_penalty p) = composite p"
  "composite (set_value_score p) = composite p"
  by (simp_all add: composite_def status_penalty_def chance_penalty_def set_value_score_def)


lemma calculate_value_score_rows:
  assumes "calculate_value_score an = Inr out"
  shows "\<exists>df. an = Some df \<and> missing required_columns df = [] \<and> missing penalty_columns df = [] \<and>
    filter (\<lambda>p. minutes p > 0) (rows df) \<noteq> [] \<and>
    (\<forall>p \<in> set (rows df). minutes p > 0 \<longrightarrow> price p \<noteq> 0) \<and>
    out = \<lparr>columns = foldl add_col (columns df) new_columns,
            rows = map (status_penalty \<circ> chance_penalty \<circ> set_value_score)
                     (normalize_metrics (map derive_row (map fill_row (filter (\<lambda>p. minutes p > 0) (rows df)))))\<rparr>"
  using assms unfolding calculate_value_score_def
  by (auto simp: Let_def fill_row_def split: option.splits list.splits if_splits)

lemma penalty_fields [simp]:
  "status (chance_penalty q) = status q"
  "chance_of_playing_next_round (set_value_score q) = chance_of_playing_next_round q"
  "status (set_value_score q) = status q"
  by (simp_all add: chance_penalty_def set_value_score_def)



subsection \<open>A second run\<close>

lemma rows_rescore:
  "map (status_penalty \<circ> chance_penalty \<circ> set_value_score) (normalize_metrics ds) =
   map (rescore ds) ds"
  by (simp add: normalize_metrics_def rescore_def norm_row_def Let_def)

lemma status_penalty_alt:
  "status_penalty p =
   p\<lparr>value_score := (if status p \<noteq> ''a'' then value_score p * 0.3 else value_score p)\<rparr>"
  by (simp add: status_penalty_def)

lemma chance_penalty_alt:
  "chance_penalty p =
   p\<lparr>value_score :=
       (if the (chance_of_playing_next_round p) < 100 then value_score p * 0.5 else value_score p)\<rparr>"
  by (simp add: chance_penalty_def)

lemma penalties_alt:
  "(status_penalty \<circ> chance_penalty \<circ> set_value_score) p = p\<lparr>value_score := final_score p\<rparr>"
  by (simp add: status_penalty_alt chance_penalty_alt set_value_score_def final_score_def Let_def)

lemma rescore_alt: "rescore ds p = (norm_row ds p)\<lparr>value_score := final_score (norm_row ds p)\<rparr>"
  unfolding rescore_def by (rule penalties_alt)

lemma norm_row_fields [simp]:
  "points_per_game (norm_row ds q) = points_per_game q"
  "form (norm_row ds q) = form q"
  "points_per_million (norm_row ds q) = points_per_million q"
  "ict_index (norm_row ds q) = ict_index q"
  "expected_involvement (norm_row ds q) = expected_involvement q"
  "chance_of_playing_next_round (norm_row ds q) = chance_of_playing_next_round q"
  "status (norm_row ds q) = status q"
  by (simp_all add: norm_row_def)

lemma norm_row_value_score [simp]:
  "norm_row ds (q\<lparr>value_score := v\<rparr>) = (norm_row ds q)\<lparr>value_score := v\<rparr>"
  by (simp add: norm_row_def)

lemma norm_row_idem [simp]: "norm_row ds (norm_row ds q) = norm_row ds q"
  by (simp add: norm_row_def)

lemma composite_value_score [simp]: "composite (q\<lparr>value_score := v\<rparr>) = composite q"
  by (simp add: composite_def)

lemma final_score_value_score [simp]: "final_score (q\<lparr>value_score := v\<rparr>) = final_score q"
  by (simp add: final_score_def)

lemma rescore_rescore: "rescore ds (rescore ds q) = rescore ds q"
  by (simp add: rescore_alt)

lemma fillna_fillna [simp]: "fillna (fillna c) = fillna c"
  by (simp add: fillna_def split: option.splits)

lemma fill_row_idem [simp]: "fill_row (fill_row p) = fill_row p"
  by (simp add: fill_row_def)

lemma derive_row_idem [simp]: "derive_row (derive_row p) = derive_row p"
  by (simp add: derive_row_def)

lemma fillna_the [simp]:
  "fillna (Some v) = Some v"
  "the (fillna c) = (case c of None \<Rightarrow> 0 | Some v \<Rightarrow> v)"
  by (simp_all add: fillna_def split: option.splits)

lemma fill_rescore:
  "fill_row (rescore ds (derive_row (fill_row p))) = rescore ds (derive_row (fill_row p))"
  by (simp add: rescore_alt norm_row_def derive_row_def fill_row_def)

lemma derive_rescore: "derive_row (rescore ds (derive_row q)) = rescore ds (derive_row q)"
  by (simp add: rescore_alt norm_row_def derive_row_def)

lemma rescore_fields [simp]:
  "points_per_game (rescore ds q) = points_per_game q"
  "form (rescore ds q) = form q"
  "points_per_million (rescore ds q) = points_per_million q"
  "ict_index (rescore ds q) = ict_index q"
  "expected_involvement (rescore ds q) = expected_involvement q"
  by (simp_all add: rescore_alt)

lemma rescore_base_fields [simp]:
  "minutes (rescore ds q) = minutes q"
  "price (rescore ds q) = price q"
  "total_points (rescore ds q) = total_points q"
  by (simp_all add: rescore_alt norm_row_def)

lemma base_fields [simp]:
  "minutes (derive_row q) = minutes q"
  "price (derive_row q) = price q"
  "total_points (derive_row q) = total_points q"
  "minutes (fill_row q) = minutes q"
  "price (fill_row q) = price q"
  "total_points (fill_row q) = total_points q"
  by (simp_all add: derive_row_def fill_row_def)

lemma set_foldl_add_col: "set (foldl add_col cs xs) = set cs \<union> set xs"
  by (induction xs arbitrary: cs) (auto simp: add_col_def)

lemma foldl_add_col_absorb: "set xs \<subseteq> set cs \<Longrightarrow> foldl add_col cs xs = cs"
  by (induction xs arbitrary: cs) (auto simp: add_col_def)

lemma missing_mono:
  "set (columns a) \<subseteq> set (columns b) \<Longrightarrow> missing cs a = [] \<Longrightarrow> missing cs b = []"
  by (auto simp: missing_def filter_empty_conv)

lemma rescore_cong:
  assumes "map (\<lambda>p. the (points_per_game p)) a = map (\<lambda>p. the (points_per_game p)) b"
    and "map (\<lambda>p. the (form p)) a = map (\<lambda>p. the (form p)) b"
    and "map points_per_million a = map points_per_million b"
    and "map (\<lambda>p. the (ict_index p)) a = map (\<lambda>p. the (ict_index p)) b"
    and "map expected_involvement a = map expected_involvement b"
  shows "rescore a = rescore b"
  using assms by (simp add: rescore_def norm_row_def fun_eq_iff)

lemma calculate_value_score_run:
  assumes "missing required_columns df = []" "missing penalty_columns df = []"
    and "rs = map fill_row (filter (\<lambda>p. minutes p > 0) (rows df))"
    and "rs \<noteq> []" "\<forall>p \<in> set rs. price p \<noteq> 0"
  shows "calculate_value_score (Some df) =
     Inr \<lparr>columns = foldl add_col (columns df) new_columns,
          rows = map (rescore (map derive_row rs)) (map derive_row rs)\<rparr>"
  using assms unfolding calculate_value_score_def
  by (simp add: Let_def rows_rescore del: o_apply)

text \<open>
  Claim C9. \<^verbatim>\<open>calculate_value_score\<close> stores the table it returns in
  \<^verbatim>\<open>self.players_df\<close>, so a second run in succession works on the result \<open>d\<close> of the
  first. The second run returns \<open>d\<close> again: the same rows, with the same value score for
  every player, and the same columns.
\<close>

theorem scoring_idempotent:
  assumes "calculate_value_score an = Inr d"
  shows "calculate_value_score (Some d) = Inr d"
proof -
  from calculate_value_score_rows [OF assms] obtain df :: dataframe where
    req: "missing required_columns df = []" and pen: "missing penalty_columns df = []" and
    ne: "filter (\<lambda>p. minutes p > 0) (rows df) \<noteq> []" and
    pr: "\<forall>p \<in> set (rows df). minutes p > 0 \<longrightarrow> price p \<noteq> 0" and
    d: "d = \<lparr>columns = foldl add_col (columns df) new_columns,
            rows = map (status_penalty \<circ> chance_penalty \<circ> set_value_score)
                     (normalize_metrics (map derive_row (map fill_row
                        (filter (\<lambda>p. minutes p > 0) (rows df)))))\<rparr>"
    by blast
  define xs where "xs = filter (\<lambda>p. minutes p > 0) (rows df)"
  define ds where "ds = map derive_row (map fill_row xs)"
  define R where "R = map (rescore ds) ds"
  have cols: "columns d = foldl add_col (columns df) new_columns" and rows: "rows d = R"
    unfolding d R_def ds_def xs_def by (simp_all add: rows_rescore del: o_apply)
  have sub: "set (columns df) \<subseteq> set (columns d)" by (simp add: cols set_foldl_add_col)
  have req': "missing required_columns d = []" using sub req by (rule missing_mono)
  have pen': "missing penalty_columns d = []" using sub pen by (rule missing_mono)
  have min: "\<forall>r \<in> set R. minutes r > 0" unfolding R_def ds_def xs_def by auto
  have price: "\<forall>r \<in> set R. price r \<noteq> 0" unfolding R_def ds_def xs_def using pr by auto
  have filt: "filter (\<lambda>p. minutes p > 0) R = R" using min by simp
  have fill: "map fill_row R = R"
    unfolding R_def ds_def by (simp add: fill_rescore map_idI)
  have der: "map derive_row R = R"
    unfolding R_def ds_def by (simp add: derive_rescore map_idI)
  have Rne: "R \<noteq> []" unfolding R_def ds_def xs_def using ne by simp
  have resc: "rescore R = rescore ds"
    by (rule rescore_cong) (simp_all add: R_def)
  have step: "calculate_value_score (Some d) =
     Inr \<lparr>columns = foldl add_col (columns d) new_columns,
          rows = map (rescore (map derive_row R)) (map derive_row R)\<rparr>"
  proof (rule calculate_value_score_run [OF req' pen'])
    show "R = map fill_row (filter (\<lambda>p. minutes p > 0) (rows d))" by (simp add: rows filt fill)
    show "R \<noteq> []" by (rule Rne)
    show "\<forall>p \<in> set R. price p \<noteq> 0" by (rule price)
  qed
  have c2: "foldl add_col (columns d) new_columns = columns d"
    by (rule foldl_add_col_absorb) (simp add: cols set_foldl_add_col)
  have r2: "map (rescore (map derive_row R)) (map derive_row R) = R"
    unfolding der resc by (simp add: R_def rescore_rescore)
  show ?thesis unfolding step c2 r2 using rows by simp
qed

theorem scoring_idempotent_witness:
  "calculate_value_score ex1 = Inr ex1_scored \<and>
   calculate_value_score (Some ex1_scored) = Inr ex1_scored \<and>
   map value_score (rows ex1_scored) = [9 / 20, 3 / 80]"
proof -
  have "calculate_value_score ex1 = Inr (projr (calculate_value_score ex1))"
    by (simp add: score_defs ex1_def ex1_rows_def p0_def raw_columns_def)
  then have run: "calculate_value_score ex1 = Inr ex1_scored" by (simp add: ex1_scored_def)
  have vals: "map value_score (rows ex1_scored) = [9 / 20, 3 / 80]"
    unfolding ex1_scored_def by (simp add: score_defs ex1_def ex1_rows_def p0_def raw_columns_def)
  from scoring_idempotent [OF run] run vals show ?thesis by simp
qed

subsection \<open>A missing column\<close>

text \<open>
  Claim C7, as amended. When a column that \<^verbatim>\<open>calculate_value_score\<close> requires (among
  them \<^verbatim>\<open>points_per_game\<close>, \<^verbatim>\<open>form\<close>, \<^verbatim>\<open>ict_index\<close>, \<^verbatim>\<open>expected_goals\<close>,
  \<^verbatim>\<open>expected_assists\<close>, \<^verbatim>\<open>total_points\<close> and \<^verbatim>\<open>price\<close>) is absent from a loaded
  table, the function fails with pandas' \<open>KeyError\<close> naming the first absent column in the
  order in which the function reads them, which is the missing column itself when no other
  one is absent. No table is returned, so no default stands in for the column.
\<close>

theorem missing_column_raises_key_error:
  assumes "c \<in> set required_columns" and "c \<notin> set (columns df)"
  shows "calculate_value_score (Some df) = Inl (KeyError [hd (missing required_columns df)]) \<and>
         hd (missing required_columns df) \<in> set required_columns \<and>
         hd (missing required_columns df) \<notin> set (columns df) \<and>
         ((\<forall>x \<in> set required_columns. x \<noteq> c \<longrightarrow> x \<in> set (columns df)) \<longrightarrow>
            hd (missing required_columns df) = c)"
proof -
  have c: "c \<in> set (missing required_columns df)" using assms by (simp add: missing_def)
  then obtain m ms where ms: "missing required_columns df = m # ms"
    by (cases "missing required_columns df") auto
  have m: "m \<in> set (missing required_columns df)" by (simp add: ms)
  then have m1: "m \<in> set required_columns" and m2: "m \<notin> set (columns df)"
    by (simp_all add: missing_def)
  have run: "calculate_value_score (Some df) = Inl (KeyError [m])"
    by (simp add: calculate_value_score_def ms)
  have only: "(\<forall>x \<in> set required_columns. x \<noteq> c \<longrightarrow> x \<in> set (columns df)) \<longrightarrow> m = c"
    using m1 m2 by blast
  show ?thesis using run m1 m2 only by (simp add: ms)
qed

theorem missing_column_raises_key_error_witness:
  "''form'' \<in> set required_columns \<and> ''form'' \<notin> set (columns (the ex_no_form)) \<and>
   calculate_value_score ex_no_form = Inl (KeyError [''form''])"
proof -
  have a: "''form'' \<in> set required_columns" by (simp add: required_columns_def)
  have b: "''form'' \<notin> set (columns (the ex_no_form))" by (simp add: ex_no_form_def)
  have e: "ex_no_form = Some (the ex_no_form)" by (simp add: ex_no_form_def)
  have h: "hd (missing required_columns (the ex_no_form)) = ''form''"
    by (simp add: ex_no_form_def missing_def required_columns_def raw_columns_def)
  from missing_column_raises_key_error [OF a b] h e a b show ?thesis by simp
qed

text \<open>
  Claim C7, as stated, fails: without the \<^verbatim>\<open>form\<close> column the error is a \<open>KeyError\<close>,
  not a \<open>ConfigurationError\<close>.
\<close>

theorem configuration_error_counterexample:
  "''form'' \<notin> set (columns (the ex_no_form)) \<and>
   calculate_value_score ex_no_form = Inl (KeyError [''form'']) \<and>
   calculate_value_score ex_no_form \<noteq> Inl (ConfigurationError ''form'')"
  by (simp add: ex_no_form_def calculate_value_score_def missing_def required_columns_def raw_columns_def)

section \<open>Properties of the SquadBuilder\<close>

lemmas ex_gk_defs = ex_gk_def ex_gk_rows_def gk_def p0_def raw_columns_def

lemmas squad_defs = build_optimal_squad_def scored_table_def candidates_def sort_values_desc_def
  formation_def display_columns_def








subsection \<open>Partial squads\<close>

text \<open>
  Claim C6, as amended. On a table that is scored, or can be, and has the columns the
  function reads, \<^verbatim>\<open>build_optimal_squad\<close> returns without raising as soon as the greedy
  selection has taken at least one player, whether or not every quota is filled. What it
  returns is the table of the selected rows and nothing more: no report of unmet quotas
  accompanies a partial squad.
\<close>

theorem partial_squad_returned:
  assumes "scored_table an = Inr df"
    and "set (''status'' # display_columns) \<subseteq> set (columns df)"
    and "st = fill_positions formation df \<lparr>squad = [], remaining_budget = budget, team_counts = Map.empty\<rparr>"
    and "squad st \<noteq> []"
  shows "build_optimal_squad an budget = Inr \<lparr>columns = columns df, rows = squad st\<rparr>"
proof -
  have m1: "missing [''position'', ''status''] df = []"
    using assms(2) by (simp add: missing_def display_columns_def)
  have m2: "missing [''team_short'', ''price''] df = []"
    using assms(2) by (simp add: missing_def display_columns_def)
  have m3: "missing display_columns df = []"
    using assms(2) by (auto simp: missing_def filter_empty_conv)
  show ?thesis
    unfolding build_optimal_squad_def using assms(1,4) m1 m2 m3
    by (simp add: Let_def assms(3) [symmetric])
qed

theorem partial_squad_returned_witness:
  "scored_table ex_gk = Inr ex_gk_scored \<and>
   set (''status'' # display_columns) \<subseteq> set (columns ex_gk_scored) \<and>
   build_optimal_squad ex_gk 100 =
     Inr \<lparr>columns = columns ex_gk_scored,
          rows = squad (fill_positions formation ex_gk_scored
                   \<lparr>squad = [], remaining_budget = 100, team_counts = Map.empty\<rparr>)\<rparr> \<and>
   map web_name (rows (projr (build_optimal_squad ex_gk 100))) = [''A'', ''B''] \<and>
   position_count (rows (projr (build_optimal_squad ex_gk 100))) ''DEF'' = 0"
proof -
  let ?st = "fill_positions formation ex_gk_scored
                   \<lparr>squad = [], remaining_budget = 100, team_counts = Map.empty\<rparr>"
  have "scored_table ex_gk = Inr (projr (calculate_value_score ex_gk))"
    by (simp add: scored_table_def score_defs ex_gk_defs)
  then have a: "scored_table ex_gk = Inr ex_gk_scored" by (simp add: ex_gk_scored_def)
  have b: "set (''status'' # display_columns) \<subseteq> set (columns ex_gk_scored)"
    unfolding ex_gk_scored_def by (simp add: display_columns_def score_defs ex_gk_defs)
  have c: "squad ?st \<noteq> []"
    unfolding ex_gk_scored_def by (simp add: squad_defs score_defs ex_gk_defs)
  have d: "map web_name (rows (projr (build_optimal_squad ex_gk 100))) = [''A'', ''B'']"
    by (simp add: squad_defs score_defs ex_gk_defs)
  have e: "position_count (rows (projr (build_optimal_squad ex_gk 100))) ''DEF'' = 0"
    by (simp add: position_count_def squad_defs score_defs ex_gk_defs)
  from partial_squad_returned [OF a b refl c] a b d e show ?thesis by simp
qed

text \<open>
  Claim C6, as stated, fails: with a budget of 3 no goalkeeper of the table is affordable,
  no quota can be filled, and the function raises \<open>KeyError\<close> on line 162 instead of
  returning a partial squad.
\<close>

theorem empty_squad_raises_counterexample:
  "list_all (\<lambda>p. 3 < price p) ex_gk_rows \<and>
   build_optimal_squad ex_gk 3 = Inl (KeyError [''price''])"
  by (simp add: squad_defs score_defs ex_gk_defs)

subsection \<open>The order of the candidates\<close>






section \<open>Properties of the FixtureDifficultyEstimator\<close>










subsection \<open>Unknown clubs\<close>










section \<open>Properties of the TransferRecommender\<close>

lemmas ex_team_defs = ex_team_def ex_team_rows_def ex_ids_def pl_def p0_def raw_columns_def

lemmas transfer_defs = recommend_transfers_def scored_table_def position_recommendations_def
  recs_for_def replacements_def count_after_def make_rec_def value_counts_def
  sorted_by_improvement_def sort_values_desc_def positions_def slice_to_def List.map_filter_def






lemma set_slice_to: "set (slice_to k xs) \<subseteq> set xs"
  by (auto simp: slice_to_def dest: in_set_takeD)








lemma recommend_transfers_Inr:
  assumes "recommend_transfers an ids ta = Inr recs"
  shows "\<exists>df. scored_table an = Inr df \<and>
     (recs = [] \<or>
      recs = slice_to (ta * 3) (sorted_by_improvement (concat (map (\<lambda>pos.
        position_recommendations
          (value_counts (map team_short (filter (\<lambda>p. ident p \<in> set ids) (rows df)))) pos
          (filter (\<lambda>p. ident p \<in> set ids) (rows df))
          (filter (\<lambda>p. ident p \<notin> set ids) (rows df))) positions))))"
  using assms unfolding recommend_transfers_def
  by (auto simp: Let_def simp del: concat_eq_Nil_conv split: sum.splits list.splits if_splits)







subsection \<open>Score and club cap of a recommendation\<close>

lemma recs_for_improves:
  assumes "r \<in> set (recs_for tc pos av cp)"
  shows "in_score r > out_score r \<and> team_count_after r \<le> 3"
  using assms
  by (auto simp: recs_for_def List.map_filter_def make_rec_def replacements_def sort_values_desc_def
      split: option.splits if_splits dest!: in_set_takeD)

lemma recommendation_improves_and_capped:
  assumes "recommend_transfers an ids ta = Inr recs" and "r \<in> set recs"
  shows "in_score r > out_score r \<and> team_count_after r \<le> 3"
proof -
  from recommend_transfers_Inr [OF assms(1)] assms(2) obtain df :: dataframe where
    "r \<in> set (slice_to (ta * 3) (sorted_by_improvement (concat (map (\<lambda>pos.
        position_recommendations
          (value_counts (map team_short (filter (\<lambda>p. ident p \<in> set ids) (rows df)))) pos
          (filter (\<lambda>p. ident p \<in> set ids) (rows df))
          (filter (\<lambda>p. ident p \<notin> set ids) (rows df))) positions))))"
    by auto
  then obtain pos tc ct av where "r \<in> set (position_recommendations tc pos ct av)"
    using set_slice_to by (fastforce simp: sorted_by_improvement_def)
  then obtain cp avp where "r \<in> set (recs_for tc pos avp cp)"
    by (auto simp: position_recommendations_def sorted_by_improvement_def Let_def dest!: in_set_takeD)
  then show ?thesis by (rule recs_for_improves)
qed

text \<open>
  Claim C4 holds in its first half, by the lemma above: an incoming score strictly above
  the outgoing one, and a \<open>team_count_after\<close> of at most 3. Its second half fails on the
  code. The counts of line 193 are those of the scored table, from which
  \<^verbatim>\<open>calculate_value_score\<close> has dropped the players without minutes, squad members
  included. Here the squad has three players of ARS, of whom goalkeeper 2 has not played.
  The swap of forward 13 for forward 16 of ARS is returned with a count of 3 after the
  swap, and the squad after the swap has four players of ARS.
\<close>

theorem club_cap_broken_by_unscored_squad_member:
  "length (filter (\<lambda>p. ident p \<in> set ex_ids) ex_team_rows) = 15 \<and>
   list_all (\<lambda>c. club_count (filter (\<lambda>p. ident p \<in> set ex_ids) ex_team_rows) c \<le> 3)
     (map team_short ex_team_rows) \<and>
   map_sum id (map (\<lambda>r. (out_name r, in_name r, in_team r, team_count_after r)))
       (recommend_transfers ex_team ex_ids 1) =
     Inr [(''DEF-ARS'', ''DEF-LIV'', ''LIV'', 1), (''FWD-CHE'', ''FWD-ARS'', ''ARS'', 3),
          (''DEF-ARS'', ''DEF-EVE'', ''EVE'', 1)] \<and>
   map (\<lambda>p. (ident p, web_name p)) (filter (\<lambda>p. team_short p = ''ARS'')
       (squad_after_swap ex_team_rows ex_ids 13 16)) =
     [(2, ''GK-ARS''), (3, ''DEF-ARS''), (8, ''MID-ARS''), (16, ''FWD-ARS'')] \<and>
   club_count (squad_after_swap ex_team_rows ex_ids 13 16) ''ARS'' = 4"
proof (intro conjI)
  show "length (filter (\<lambda>p. ident p \<in> set ex_ids) ex_team_rows) = 15"
    by (simp add: ex_team_defs)
  show "list_all (\<lambda>c. club_count (filter (\<lambda>p. ident p \<in> set ex_ids) ex_team_rows) c \<le> 3)
     (map team_short ex_team_rows)"
    by (simp add: club_count_def ex_team_defs)
  show "map_sum id (map (\<lambda>r. (out_name r, in_name r, in_team r, team_count_after r)))
       (recommend_transfers ex_team ex_ids 1) =
     Inr [(''DEF-ARS'', ''DEF-LIV'', ''LIV'', 1), (''FWD-CHE'', ''FWD-ARS'', ''ARS'', 3),
          (''DEF-ARS'', ''DEF-EVE'', ''EVE'', 1)]"
    by (simp add: transfer_defs score_defs ex_team_defs)
  show "map (\<lambda>p. (ident p, web_name p)) (filter (\<lambda>p. team_short p = ''ARS'')
       (squad_after_swap ex_team_rows ex_ids 13 16)) =
     [(2, ''GK-ARS''), (3, ''DEF-ARS''), (8, ''MID-ARS''), (16, ''FWD-ARS'')]"
    by (simp add: squad_after_swap_def ex_team_defs)
  show "club_count (squad_after_swap ex_team_rows ex_ids 13 16) ''ARS'' = 4"
    by (simp add: club_count_def squad_after_swap_def ex_team_defs)
qed

end
